theory Spec2Isabelle
  imports Complex_Main
begin

section \<open>JavaScript values\<close>

text \<open>
  The code under study (components/webapi.js of node-steamcommunity) works on values
  that come out of \<^verbatim>\<open>JSON.parse\<close> and on option objects built by callers, and it
  tests them with JavaScript's own operators: truthiness (\<^verbatim>\<open>!x\<close>, \<^verbatim>\<open>x || y\<close>),
  loose equality (\<^verbatim>\<open>==\<close>, \<^verbatim>\<open>!=\<close>), strict equality (\<^verbatim>\<open>switch\<close>), the relational
  operator \<^verbatim>\<open><\<close> and \<^verbatim>\<open>indexOf\<close>. The operators are written out below on a datatype
  of values.

  A Number is \<open>NaN\<close>, an infinity or a finite value; a finite double is a rational, and
  \<open>+0\<close> and \<open>-0\<close> (which no operator used here tells apart) are both \<open>Fin 0\<close>.
  \<open>JUndefined\<close> is also what reading an absent property gives. \<open>JObj\<close> is a plain
  object (one whose \<^verbatim>\<open>toString\<close> and \<^verbatim>\<open>valueOf\<close> are those of
  \<^verbatim>\<open>Object.prototype\<close>); none of the operators below looks inside it.
\<close>

datatype jsnum = NaN | PInf | NInf | Fin rat

datatype jsval =
    JUndefined
  | JNull
  | JBool bool
  | JNum jsnum
  | JStr string
  | JArr "jsval list"
  | JObj

text \<open>
  Errors a call can raise or hand to its callback: \<^verbatim>\<open>new Error(message)\<close>, and the
  engine's own \<^verbatim>\<open>TypeError\<close> (calling what is not a function, reading a property of
  \<^verbatim>\<open>undefined\<close>).
\<close>

datatype js_error = Error string | TypeError

text \<open>
  The claims the code reads off a decoded token; an absent claim reads as
  \<open>JUndefined\<close>. (The expiry claim is \<^verbatim>\<open>exp\<close> in the source.)
\<close>

record decoded_token =
  iss :: jsval
  sub :: jsval
  aud :: jsval
  exp_claim :: jsval

text \<open>
  What the code calls without defining it. The conversions between strings and numbers
  (\<^verbatim>\<open>StringToNumber\<close> and \<^verbatim>\<open>Number::toString\<close> of ECMA-262) belong to the engine.
  \<^verbatim>\<open>Helpers.decodeJwt\<close> lives in components/helpers.js, which is not among the sources
  at hand; it either throws or yields the parsed payload, taken to be an object, of which
  the code reads the four claims. All three are parameters of the model.
\<close>

record js_env =
  StringToNumber :: "string \<Rightarrow> jsnum"
  NumberToString :: "jsnum \<Rightarrow> string"
  decodeJwt :: "string \<Rightarrow> js_error + decoded_token"

text \<open>\<^verbatim>\<open>ToBoolean\<close>: what \<^verbatim>\<open>if (x)\<close>, \<^verbatim>\<open>!x\<close> and \<^verbatim>\<open>x || y\<close> test.\<close>

fun truthy :: "jsval \<Rightarrow> bool" where
  "truthy JUndefined = False"
| "truthy JNull = False"
| "truthy (JBool b) = b"
| "truthy (JNum n) = (n \<noteq> NaN \<and> n \<noteq> Fin 0)"
| "truthy (JStr s) = (s \<noteq> [])"
| "truthy (JArr xs) = True"
| "truthy JObj = True"

text \<open>\<^verbatim>\<open>a || b\<close>\<close>

definition js_or :: "jsval \<Rightarrow> jsval \<Rightarrow> jsval" where
  "js_or a b = (if truthy a then a else b)"

text \<open>\<^verbatim>\<open>Array.prototype.join\<close> with separator \<^verbatim>\<open>,\<close> on the converted elements.\<close>

fun join_comma :: "string list \<Rightarrow> string" where
  "join_comma [] = []"
| "join_comma [s] = s"
| "join_comma (s # t # ts) = s @ '','' @ join_comma (t # ts)"

text \<open>
  \<^verbatim>\<open>ToString\<close>, as a template literal applies it. An array converts through
  \<^verbatim>\<open>Array.prototype.toString\<close>, which joins its elements, an \<^verbatim>\<open>undefined\<close> or
  \<^verbatim>\<open>null\<close> element giving the empty string.
\<close>

fun ToString :: "js_env \<Rightarrow> jsval \<Rightarrow> string" where
  "ToString E JUndefined = ''undefined''"
| "ToString E JNull = ''null''"
| "ToString E (JBool b) = (if b then ''true'' else ''false'')"
| "ToString E (JNum n) = NumberToString E n"
| "ToString E (JStr s) = s"
| "ToString E (JArr xs) =
     join_comma (map (\<lambda>x. if x = JUndefined \<or> x = JNull then [] else ToString E x) xs)"
| "ToString E JObj = ''[object Object]''"

text \<open>\<^verbatim>\<open>ToNumber(ToPrimitive(x))\<close>: arrays and objects convert to their string first.\<close>

fun ToNumber :: "js_env \<Rightarrow> jsval \<Rightarrow> jsnum" where
  "ToNumber E JUndefined = NaN"
| "ToNumber E JNull = Fin 0"
| "ToNumber E (JBool b) = Fin (if b then 1 else 0)"
| "ToNumber E (JNum n) = n"
| "ToNumber E (JStr s) = StringToNumber E s"
| "ToNumber E (JArr xs) = StringToNumber E (ToString E (JArr xs))"
| "ToNumber E JObj = StringToNumber E (ToString E JObj)"

text \<open>\<^verbatim>\<open>Number::equal\<close> and \<^verbatim>\<open>Number::lessThan\<close>; a comparison with \<open>NaN\<close> is false.\<close>

definition num_eq :: "jsnum \<Rightarrow> jsnum \<Rightarrow> bool" where
  "num_eq a b = (a \<noteq> NaN \<and> a = b)"

fun num_lt :: "jsnum \<Rightarrow> jsnum \<Rightarrow> bool" where
  "num_lt (Fin a) (Fin b) = (a < b)"
| "num_lt (Fin a) PInf = True"
| "num_lt NInf (Fin b) = True"
| "num_lt NInf PInf = True"
| "num_lt _ _ = False"

text \<open>
  \<^verbatim>\<open>x == s\<close> for a string \<open>s\<close> (\<^verbatim>\<open>IsLooselyEqual\<close>): a string compares as a string,
  a number or boolean with the number the string converts to, an array or object through
  its string; \<^verbatim>\<open>undefined\<close> and \<^verbatim>\<open>null\<close> equal no string.
\<close>

fun loose_eq_str :: "js_env \<Rightarrow> jsval \<Rightarrow> string \<Rightarrow> bool" where
  "loose_eq_str E JUndefined s = False"
| "loose_eq_str E JNull s = False"
| "loose_eq_str E (JBool b) s = num_eq (ToNumber E (JBool b)) (StringToNumber E s)"
| "loose_eq_str E (JNum n) s = num_eq n (StringToNumber E s)"
| "loose_eq_str E (JStr t) s = (t = s)"
| "loose_eq_str E (JArr xs) s = (ToString E (JArr xs) = s)"
| "loose_eq_str E JObj s = (ToString E JObj = s)"

text \<open>
  \<^verbatim>\<open>x < n\<close> for a finite integral number \<open>n\<close> (\<^verbatim>\<open>IsLessThan\<close>): the right operand is
  not a string, so the left one is converted to a number.
\<close>

definition less_than_int :: "js_env \<Rightarrow> jsval \<Rightarrow> int \<Rightarrow> bool" where
  "less_than_int E x n = num_lt (ToNumber E x) (Fin (of_int n))"

text \<open>\<^verbatim>\<open>x === k\<close> for an integer constant \<open>k\<close>, as a \<^verbatim>\<open>switch\<close> compares.\<close>

definition strict_eq_int :: "jsval \<Rightarrow> int \<Rightarrow> bool" where
  "strict_eq_int x k = (x = JNum (Fin (of_int k)))"

text \<open>
  \<^verbatim>\<open>String.prototype.indexOf\<close>: the first position at which the pattern occurs,
  or \<open>-1\<close>.
\<close>

fun str_indexOf :: "string \<Rightarrow> string \<Rightarrow> nat \<Rightarrow> int" where
  "str_indexOf [] p i = (if p = [] then int i else - 1)"
| "str_indexOf (c # cs) p i =
     (if take (length p) (c # cs) = p then int i else str_indexOf cs p (Suc i))"

text \<open>
  \<^verbatim>\<open>Array.prototype.indexOf\<close> for a string: the first position holding that very string
  (strict equality), or \<open>-1\<close>.
\<close>

fun arr_indexOf :: "jsval list \<Rightarrow> string \<Rightarrow> nat \<Rightarrow> int" where
  "arr_indexOf [] p i = - 1"
| "arr_indexOf (x # xs) p i = (if x = JStr p then int i else arr_indexOf xs p (Suc i))"

text \<open>
  \<^verbatim>\<open>x.indexOf(p)\<close>: strings and arrays have the method; on a number, a boolean or a
  plain object the property is not a function, on \<^verbatim>\<open>undefined\<close> and \<^verbatim>\<open>null\<close> it
  cannot even be read. Both raise \<^verbatim>\<open>TypeError\<close>.
\<close>

fun js_indexOf :: "jsval \<Rightarrow> string \<Rightarrow> js_error + int" where
  "js_indexOf (JStr s) p = Inr (str_indexOf s p 0)"
| "js_indexOf (JArr xs) p = Inr (arr_indexOf xs p 0)"
| "js_indexOf _ p = Inl TypeError"

section \<open>The mobile access token\<close>

text \<open>
  The fields of the \<^verbatim>\<open>SteamCommunity\<close> object the token code uses. \<open>steamID\<close> is
  \<open>None\<close> before any login and \<open>Some s\<close> for a SteamID object whose
  \<^verbatim>\<open>getSteamID64()\<close> is the string \<open>s\<close>; \<open>mobileAccessToken\<close> is \<open>None\<close> while
  the property is absent.
\<close>

record session =
  steamID :: "string option"
  mobileAccessToken :: "string option"

text \<open>
  \<^verbatim>\<open>setMobileAppAccessToken(token)\<close>. The clock \<^verbatim>\<open>Date.now()\<close> is the argument
  \<open>nowMs\<close>, in milliseconds; \<^verbatim>\<open>Math.floor(Date.now() / 1000)\<close> is \<open>nowMs div 1000\<close>
  (\<open>div\<close> on \<open>int\<close> rounds down). The result pairs what the call did (\<open>Inl\<close> the
  error thrown) with the session it leaves behind.
\<close>

definition setMobileAppAccessToken ::
  "js_env \<Rightarrow> int \<Rightarrow> session \<Rightarrow> string \<Rightarrow> (js_error + unit) \<times> session" where
  "setMobileAppAccessToken R nowMs this token =
     (case steamID this of
        None \<Rightarrow>
          (Inl (Error ''Log on to steamcommunity before setting a mobile app access token''), this)
      | Some steamID64 \<Rightarrow>
          (case decodeJwt R token of
             Inl e \<Rightarrow> (Inl e, this)
           | Inr decodedToken \<Rightarrow>
               if \<not> truthy (iss decodedToken) \<or> \<not> truthy (sub decodedToken)
                  \<or> \<not> truthy (aud decodedToken) \<or> \<not> truthy (exp_claim decodedToken)
               then (Inl (Error ''Provided value is not a valid Steam access token''), this)
               else if loose_eq_str R (iss decodedToken) ''steam''
               then (Inl (Error ''Provided token is a refresh token, not an access token''), this)
               else if \<not> loose_eq_str R (sub decodedToken) steamID64
               then (Inl (Error (''Provided token belongs to account ''
                                  @ ToString R (sub decodedToken)
                                  @ '', but we are logged into '' @ steamID64)), this)
               else if less_than_int R (exp_claim decodedToken) (nowMs div 1000)
               then (Inl (Error ''Provided token is expired''), this)
               else (case js_indexOf (js_or (aud decodedToken) (JArr [])) ''mobile'' of
                       Inl e \<Rightarrow> (Inl e, this)
                     | Inr i \<Rightarrow>
                         if i = - 1
                         then (Inl (Error ''Provided token is not valid for MobileApp platform type''),
                               this)
                         else (Inr (), this\<lparr>mobileAccessToken := Some token\<rparr>))))"


section \<open>Creating a Web API key\<close>

text \<open>
  \<^verbatim>\<open>CreateApiKeyOptions\<close> and \<^verbatim>\<open>CreateApiKeyResponse\<close>, as the source's typedefs
  declare them. An absent property is \<open>JUndefined\<close>; the optional
  \<^verbatim>\<open>finalizeOptions\<close> is an object of the first kind.
\<close>

record CreateApiKeyOptions =
  domain :: jsval
  requestID :: jsval
  identitySecret :: jsval

record CreateApiKeyResponse =
  confirmationRequired :: bool
  apiKey :: jsval
  finalizeOptions :: "CreateApiKeyOptions option"

text \<open>The form posted to the registration endpoint, and the properties read off the reply.\<close>

record requestkey_form =
  form_domain :: jsval
  form_request_id :: jsval
  form_sessionid :: jsval
  form_agreeToTerms :: string

record requestkey_body =
  success :: jsval
  api_key :: jsval
  request_id :: jsval
  requires_confirmation :: jsval

text \<open>
  Everything \<^verbatim>\<open>createWebApiKey\<close> does to the world is a call of one of four methods.
  The history of a run is the list of the calls made so far, oldest first.
\<close>

datatype call =
    GetSessionID
  | HttpRequestPost string requestkey_form
  | GetWebApiKey
  | AcceptConfirmationForObject jsval jsval

text \<open>
  The collaborators. Each answers as a function of the history so far, so that the same
  call may be answered differently the second time (the server has moved on). A callback
  error is \<open>None\<close> when the \<^verbatim>\<open>err\<close> argument is falsy, which is all the code tests.
  \<^verbatim>\<open>getWebApiKey\<close> is defined in the same file by scraping an HTML page; here only
  what it hands to its callback matters. The enumeration \<^verbatim>\<open>SteamCommunity.EResult\<close>
  and \<^verbatim>\<open>Helpers.eresultError\<close> are defined in files that are not among the sources at
  hand: the two constants used and the function are parameters too.
\<close>

record deps =
  EResult_OK :: int
  EResult_Pending :: int
  eresultError :: "jsval \<Rightarrow> js_error"
  getSessionID :: "call list \<Rightarrow> jsval"
  httpRequestPost :: "call list \<Rightarrow> string \<Rightarrow> requestkey_form \<Rightarrow> js_error option \<times> requestkey_body"
  getWebApiKey :: "call list \<Rightarrow> js_error option \<times> jsval"
  acceptConfirmationForObject :: "call list \<Rightarrow> jsval \<Rightarrow> jsval \<Rightarrow> js_error option"

definition requestkey_uri :: string where
  "requestkey_uri = ''https://steamcommunity.com/dev/requestkey''"

text \<open>
  Which label of \<^verbatim>\<open>switch (body.success)\<close> is taken: the first one strictly equal to
  the value, \<^verbatim>\<open>default\<close> when there is none.
\<close>

datatype switch_label = OK | Pending | Default

definition switch_success :: "deps \<Rightarrow> jsval \<Rightarrow> switch_label" where
  "switch_success D v =
     (if strict_eq_int v (EResult_OK D) then OK
      else if strict_eq_int v (EResult_Pending D) then Pending
      else Default)"

text \<open>
  \<^verbatim>\<open>createWebApiKey(options, callback)\<close>. The result is what the callback receives
  (\<open>Inl\<close> its \<^verbatim>\<open>err\<close>, \<open>Inr\<close> its \<^verbatim>\<open>result\<close>) and the history at that moment.
  The reply body is taken to be an object, as the endpoint sends one.
\<close>

function createWebApiKey ::
  "deps \<Rightarrow> call list \<Rightarrow> CreateApiKeyOptions \<Rightarrow> (js_error + CreateApiKeyResponse) \<times> call list" where
  "createWebApiKey D h options =
     (if \<not> truthy (domain options)
      then (Inl (Error ''Passing a domain is required to register an API key''), h)
      else
        let sessionid = getSessionID D h;
            h1 = h @ [GetSessionID];
            form = \<lparr>form_domain = domain options,
                    form_request_id = js_or (requestID options) (JStr ''0''),
                    form_sessionid = sessionid,
                    form_agreeToTerms = ''true''\<rparr>;
            (err, body) = httpRequestPost D h1 requestkey_uri form;
            h2 = h1 @ [HttpRequestPost requestkey_uri form]
        in case err of
             Some e \<Rightarrow> (Inl e, h2)
           | None \<Rightarrow>
               (case switch_success D (success body) of
                  OK \<Rightarrow>
                    if truthy (api_key body)
                    then (Inr \<lparr>confirmationRequired = False, apiKey = api_key body,
                               finalizeOptions = None\<rparr>, h2)
                    else
                      let (err, key) = getWebApiKey D h2;
                          h3 = h2 @ [GetWebApiKey]
                      in (case err of
                            Some e \<Rightarrow> (Inl e, h3)
                          | None \<Rightarrow> (Inr \<lparr>confirmationRequired = False, apiKey = key,
                                            finalizeOptions = None\<rparr>, h3))
                | Pending \<Rightarrow>
                    let finalize = \<lparr>domain = domain options,
                                     requestID = js_or (request_id body) (requestID options),
                                     identitySecret = JUndefined\<rparr>
                    in if truthy (identitySecret options)
                       then
                         let err = acceptConfirmationForObject D h2 (identitySecret options)
                                     (requestID finalize);
                             h3 = h2 @ [AcceptConfirmationForObject (identitySecret options)
                                          (requestID finalize)]
                         in (case err of
                               Some e \<Rightarrow> (Inl e, h3)
                             | None \<Rightarrow> createWebApiKey D h3 finalize)
                       else (Inr \<lparr>confirmationRequired = True, apiKey = JUndefined,
                                  finalizeOptions = Some finalize\<rparr>, h2)
                | Default \<Rightarrow> (Inl (eresultError D (success body)), h2)))"
  by pat_completeness auto
termination
  by (relation "measure (\<lambda>(D, h, options). if truthy (identitySecret options) then 1 else 0)")
     auto

declare createWebApiKey.simps [simp del]

section \<open>Session states\<close>





text \<open>
  Whether a string occurs in another, as \<^verbatim>\<open>String.prototype.indexOf\<close> searches for it.
\<close>

fun occurs_in :: "string \<Rightarrow> string \<Rightarrow> bool" where
  "occurs_in p [] = (p = [])"
| "occurs_in p (c # cs) = (take (length p) (c # cs) = p \<or> occurs_in p cs)"

section \<open>The parts of a run of createWebApiKey\<close>

text \<open>
  Names for what a run of \<^verbatim>\<open>createWebApiKey\<close> builds on its way: the form it posts, the
  reply it gets, the history once the reply is in, and the \<^verbatim>\<open>finalizeOptions\<close> object
  of the \<^verbatim>\<open>Pending\<close> branch.
\<close>

definition posted_form :: "deps \<Rightarrow> call list \<Rightarrow> CreateApiKeyOptions \<Rightarrow> requestkey_form" where
  "posted_form D h options =
     \<lparr>form_domain = domain options,
      form_request_id = js_or (requestID options) (JStr ''0''),
      form_sessionid = getSessionID D h,
      form_agreeToTerms = ''true''\<rparr>"

definition registration_reply ::
  "deps \<Rightarrow> call list \<Rightarrow> CreateApiKeyOptions \<Rightarrow> js_error option \<times> requestkey_body" where
  "registration_reply D h options =
     httpRequestPost D (h @ [GetSessionID]) requestkey_uri (posted_form D h options)"

definition after_registration :: "deps \<Rightarrow> call list \<Rightarrow> CreateApiKeyOptions \<Rightarrow> call list" where
  "after_registration D h options =
     h @ [GetSessionID, HttpRequestPost requestkey_uri (posted_form D h options)]"

definition finalize_options :: "CreateApiKeyOptions \<Rightarrow> requestkey_body \<Rightarrow> CreateApiKeyOptions" where
  "finalize_options options body =
     \<lparr>domain = domain options,
      requestID = js_or (request_id body) (requestID options),
      identitySecret = JUndefined\<rparr>"

text \<open>
  The same collaborators, except that every reply of the registration endpoint carries
  the value \<open>hint\<close> chooses in its \<^verbatim>\<open>requires_confirmation\<close> field.
\<close>

definition with_hint ::
  "(call list \<Rightarrow> string \<Rightarrow> requestkey_form \<Rightarrow> jsval) \<Rightarrow> deps \<Rightarrow> deps" where
  "with_hint hint D =
     D\<lparr>httpRequestPost := \<lambda>h uri form.
          (fst (httpRequestPost D h uri form),
           (snd (httpRequestPost D h uri form))\<lparr>requires_confirmation := hint h uri form\<rparr>)\<rparr>"

section \<open>Example inputs\<close>

text \<open>
  A decoder given as a table of ten tokens (the names stand for the compact strings),
  and an account. The clock of the examples reads 1700000000000 ms, second 1700000000.

  The string-to-number conversion of the examples is a table as well. The two account
  identifiers used below convert to the double nearest to them, which is
  76561198000000000 for both: between \<open>2^56\<close> and \<open>2^57\<close> doubles are 16 apart. The
  table answers \<open>NaN\<close> elsewhere; no example converts any other string, and none
  converts a number to a string.
\<close>

definition sample_decodeJwt :: "string \<Rightarrow> js_error + decoded_token" where
  "sample_decodeJwt token =
     (let payload = \<lparr>iss = JStr ''r:0001'', sub = JStr ''76561198000000001'',
                      aud = JArr [JStr ''web'', JStr ''mobile''],
                      exp_claim = JNum (Fin 1700000600)\<rparr>
      in if token = ''access'' then Inr payload
         else if token = ''at-now'' then Inr (payload\<lparr>exp_claim := JNum (Fin 1700000000)\<rparr>)
         else if token = ''stale'' then Inr (payload\<lparr>exp_claim := JNum (Fin 1699999999)\<rparr>)
         else if token = ''other'' then Inr (payload\<lparr>sub := JStr ''76561198000000002''\<rparr>)
         else if token = ''no-aud'' then Inr (payload\<lparr>aud := JUndefined\<rparr>)
         else if token = ''web-only'' then Inr (payload\<lparr>aud := JArr [JStr ''web'']\<rparr>)
         else if token = ''epoch'' then Inr (payload\<lparr>exp_claim := JNum (Fin 0)\<rparr>)
         else if token = ''numeric-sub''
         then Inr (payload\<lparr>sub := JNum (Fin 76561198000000000)\<rparr>)
         else if token = ''numeric-aud'' then Inr (payload\<lparr>aud := JNum (Fin 5)\<rparr>)
         else if token = ''automobile'' then Inr (payload\<lparr>aud := JStr ''automobile''\<rparr>)
         else Inl (Error ''Invalid JWT''))"

definition sample_env :: js_env where
  "sample_env =
     \<lparr>StringToNumber = (\<lambda>s. if s = ''76561198000000001'' \<or> s = ''76561198000000002''
                              then Fin 76561198000000000 else NaN),
      NumberToString = (\<lambda>n. ''NaN''),
      decodeJwt = sample_decodeJwt\<rparr>"

definition logged_in :: session where
  "logged_in = \<lparr>steamID = Some ''76561198000000001'', mobileAccessToken = None\<rparr>"

text \<open>
  A registration endpoint that answers by the domain asked for: \<^verbatim>\<open>Pending\<close> to the first
  two calls for one domain, to the first call for two others (once without echoing a
  request id), \<^verbatim>\<open>OK\<close> without a key for a fourth, and \<^verbatim>\<open>OK\<close> with a key in every
  other case. Confirmations are accepted for one secret only. The two result codes are
  those of Steam's enumeration.
\<close>

definition is_requestkey :: "call \<Rightarrow> bool" where
  "is_requestkey c = (case c of HttpRequestPost uri form \<Rightarrow> True | _ \<Rightarrow> False)"

definition sample_deps :: deps where
  "sample_deps =
     \<lparr>EResult_OK = 1, EResult_Pending = 22,
      eresultError = (\<lambda>v. Error ''Error''),
      getSessionID = (\<lambda>h. JStr ''0f1e2d3c4b5a69788796a5b4''),
      httpRequestPost = (\<lambda>h uri form.
        let pending = \<lparr>success = JNum (Fin 22), api_key = JUndefined,
                        request_id = JStr ''4815162342'',
                        requires_confirmation = JNum (Fin 1)\<rparr>;
            issued = \<lparr>success = JNum (Fin 1), api_key = JStr ''0123456789ABCDEF'',
                       request_id = JUndefined, requires_confirmation = JNum (Fin 0)\<rparr>;
            asked = length (filter is_requestkey h)
        in if form_domain form = JStr ''twice.example'' \<and> asked < 2 then (None, pending)
           else if form_domain form = JStr ''once.example'' \<and> asked < 1 then (None, pending)
           else if form_domain form = JStr ''noecho.example'' \<and> asked < 1
           then (None, pending\<lparr>request_id := JUndefined\<rparr>)
           else if form_domain form = JStr ''nokey.example''
           then (None, issued\<lparr>api_key := JUndefined\<rparr>)
           else (None, issued)),
      getWebApiKey = (\<lambda>h. (None, JStr ''FEDCBA9876543210'')),
      acceptConfirmationForObject = (\<lambda>h secret object.
        if secret = JStr ''c2VjcmV0'' then None
        else Some (Error ''Could not find confirmation for object''))\<rparr>"

section \<open>How the two token operations end\<close>

lemma js_indexOf_Inl: "js_indexOf v p = Inl e \<Longrightarrow> e = TypeError"
  by (cases v) auto

lemma less_than_int_num: "less_than_int R (JNum (Fin (of_int e))) n = (e < n)"
  by (simp add: less_than_int_def)



lemma install_decoded:
  "steamID s = Some steamID64 \<Longrightarrow> decodeJwt R t = Inr d \<Longrightarrow>
   setMobileAppAccessToken R n s t =
     (if \<not> truthy (iss d) \<or> \<not> truthy (sub d) \<or> \<not> truthy (aud d) \<or> \<not> truthy (exp_claim d)
      then (Inl (Error ''Provided value is not a valid Steam access token''), s)
      else if loose_eq_str R (iss d) ''steam''
      then (Inl (Error ''Provided token is a refresh token, not an access token''), s)
      else if \<not> loose_eq_str R (sub d) steamID64
      then (Inl (Error (''Provided token belongs to account '' @ ToString R (sub d)
                         @ '', but we are logged into '' @ steamID64)), s)
      else if less_than_int R (exp_claim d) (n div 1000)
      then (Inl (Error ''Provided token is expired''), s)
      else (case js_indexOf (aud d) ''mobile'' of
              Inl e \<Rightarrow> (Inl e, s)
            | Inr i \<Rightarrow>
                if i = - 1
                then (Inl (Error ''Provided token is not valid for MobileApp platform type''), s)
                else (Inr (), s\<lparr>mobileAccessToken := Some t\<rparr>)))"
  by (simp add: setMobileAppAccessToken_def js_or_def)




lemma sample_decode:
  "decodeJwt sample_env ''access'' =
     Inr \<lparr>iss = JStr ''r:0001'', sub = JStr ''76561198000000001'',
          aud = JArr [JStr ''web'', JStr ''mobile''], exp_claim = JNum (Fin 1700000600)\<rparr>"
  "decodeJwt sample_env ''at-now'' =
     Inr \<lparr>iss = JStr ''r:0001'', sub = JStr ''76561198000000001'',
          aud = JArr [JStr ''web'', JStr ''mobile''], exp_claim = JNum (Fin 1700000000)\<rparr>"
  "decodeJwt sample_env ''stale'' =
     Inr \<lparr>iss = JStr ''r:0001'', sub = JStr ''76561198000000001'',
          aud = JArr [JStr ''web'', JStr ''mobile''], exp_claim = JNum (Fin 1699999999)\<rparr>"
  "decodeJwt sample_env ''other'' =
     Inr \<lparr>iss = JStr ''r:0001'', sub = JStr ''76561198000000002'',
          aud = JArr [JStr ''web'', JStr ''mobile''], exp_claim = JNum (Fin 1700000600)\<rparr>"
  "decodeJwt sample_env ''no-aud'' =
     Inr \<lparr>iss = JStr ''r:0001'', sub = JStr ''76561198000000001'',
          aud = JUndefined, exp_claim = JNum (Fin 1700000600)\<rparr>"
  "decodeJwt sample_env ''web-only'' =
     Inr \<lparr>iss = JStr ''r:0001'', sub = JStr ''76561198000000001'',
          aud = JArr [JStr ''web''], exp_claim = JNum (Fin 1700000600)\<rparr>"
  "decodeJwt sample_env ''epoch'' =
     Inr \<lparr>iss = JStr ''r:0001'', sub = JStr ''76561198000000001'',
          aud = JArr [JStr ''web'', JStr ''mobile''], exp_claim = JNum (Fin 0)\<rparr>"
  "decodeJwt sample_env ''numeric-sub'' =
     Inr \<lparr>iss = JStr ''r:0001'', sub = JNum (Fin 76561198000000000),
          aud = JArr [JStr ''web'', JStr ''mobile''], exp_claim = JNum (Fin 1700000600)\<rparr>"
  "decodeJwt sample_env ''numeric-aud'' =
     Inr \<lparr>iss = JStr ''r:0001'', sub = JStr ''76561198000000001'',
          aud = JNum (Fin 5), exp_claim = JNum (Fin 1700000600)\<rparr>"
  "decodeJwt sample_env ''automobile'' =
     Inr \<lparr>iss = JStr ''r:0001'', sub = JStr ''76561198000000001'',
          aud = JStr ''automobile'', exp_claim = JNum (Fin 1700000600)\<rparr>"
  "decodeJwt sample_env ''garbage'' = Inl (Error ''Invalid JWT'')"
  by (simp_all add: sample_env_def sample_decodeJwt_def)













section \<open>What indexOf finds\<close>

lemma arr_indexOf_bounds: "arr_indexOf xs p i = - 1 \<or> int i \<le> arr_indexOf xs p i"
  by (induction xs arbitrary: i) (auto, force)

lemma arr_indexOf_none: "(arr_indexOf xs p i = - 1) = (JStr p \<notin> set xs)"
proof (induction xs arbitrary: i)
  case Nil
  show ?case by simp
next
  case (Cons x xs)
  then show ?case by auto
qed


lemma str_indexOf_none: "(str_indexOf s p i = - 1) = (\<not> occurs_in p s)"
  by (induction s arbitrary: i) (simp_all del: take_Suc_Cons)

lemma indexOf_array: "js_indexOf (JArr xs) p = Inr i \<Longrightarrow> (i = - 1) = (JStr p \<notin> set xs)"
  by (auto simp: arr_indexOf_none)

lemma indexOf_string: "js_indexOf (JStr s) p = Inr i \<Longrightarrow> (i = - 1) = (\<not> occurs_in p s)"
  by (auto simp: str_indexOf_none)


section \<open>How a run of createWebApiKey unfolds\<close>

lemma create_no_domain:
  "\<not> truthy (domain options) \<Longrightarrow>
   createWebApiKey D h options
     = (Inl (Error ''Passing a domain is required to register an API key''), h)"
  by (subst createWebApiKey.simps) simp

lemma create_registered:
  assumes "truthy (domain options)" and "registration_reply D h options = (err, body)"
  shows "createWebApiKey D h options =
     (let h2 = after_registration D h options in
      case err of
        Some e \<Rightarrow> (Inl e, h2)
      | None \<Rightarrow>
          (case switch_success D (success body) of
             OK \<Rightarrow>
               if truthy (api_key body)
               then (Inr \<lparr>confirmationRequired = False, apiKey = api_key body,
                          finalizeOptions = None\<rparr>, h2)
               else (case fst (getWebApiKey D h2) of
                       Some e \<Rightarrow> (Inl e, h2 @ [GetWebApiKey])
                     | None \<Rightarrow> (Inr \<lparr>confirmationRequired = False,
                                       apiKey = snd (getWebApiKey D h2),
                                       finalizeOptions = None\<rparr>, h2 @ [GetWebApiKey]))
           | Pending \<Rightarrow>
               if truthy (identitySecret options)
               then (case acceptConfirmationForObject D h2 (identitySecret options)
                            (requestID (finalize_options options body)) of
                       Some e \<Rightarrow>
                         (Inl e, h2 @ [AcceptConfirmationForObject (identitySecret options)
                                         (requestID (finalize_options options body))])
                     | None \<Rightarrow>
                         createWebApiKey D
                           (h2 @ [AcceptConfirmationForObject (identitySecret options)
                                    (requestID (finalize_options options body))])
                           (finalize_options options body))
               else (Inr \<lparr>confirmationRequired = True, apiKey = JUndefined,
                          finalizeOptions = Some (finalize_options options body)\<rparr>, h2)
           | Default \<Rightarrow> (Inl (eresultError D (success body)), h2)))"
  using assms
  by (subst createWebApiKey.simps)
     (simp add: Let_def registration_reply_def after_registration_def posted_form_def
                finalize_options_def split_beta
           split: option.split switch_label.split)

lemma with_hint_simps:
  "getSessionID (with_hint hint D) = getSessionID D"
  "getWebApiKey (with_hint hint D) = getWebApiKey D"
  "acceptConfirmationForObject (with_hint hint D) = acceptConfirmationForObject D"
  "eresultError (with_hint hint D) = eresultError D"
  "switch_success (with_hint hint D) = switch_success D"
  "posted_form (with_hint hint D) = posted_form D"
  "after_registration (with_hint hint D) = after_registration D"
  by (simp_all add: with_hint_def switch_success_def posted_form_def after_registration_def
                    fun_eq_iff)

lemma with_hint_reply:
  "registration_reply D h options = (err, body) \<Longrightarrow>
   registration_reply (with_hint hint D) h options
     = (err, body\<lparr>requires_confirmation :=
                    hint (h @ [GetSessionID]) requestkey_uri (posted_form D h options)\<rparr>)"
  by (simp add: registration_reply_def with_hint_simps) (simp add: with_hint_def)

lemma finalize_options_hint:
  "finalize_options options (body\<lparr>requires_confirmation := x\<rparr>) = finalize_options options body"
  by (simp add: finalize_options_def)

lemma hint_ignored_no_secret:
  assumes "\<not> truthy (identitySecret options)"
  shows "createWebApiKey (with_hint hint D) h options = createWebApiKey D h options"
proof (cases "truthy (domain options)")
  case False
  then show ?thesis by (simp add: create_no_domain)
next
  case True
  obtain err body where r: "registration_reply D h options = (err, body)"
    by (cases "registration_reply D h options")
  show ?thesis
    using assms
    by (simp add: create_registered [OF True r]
                  create_registered [OF True with_hint_reply [OF r]]
                  with_hint_simps finalize_options_hint Let_def
             split: option.split switch_label.split)
qed

lemmas sample_eval =
  sample_deps_def registration_reply_def after_registration_def posted_form_def
  finalize_options_def switch_success_def strict_eq_int_def is_requestkey_def js_or_def

section \<open>The mobile access token: expiry\<close>

text \<open>
  C2, as the code has it. Take a token that decodes with all four claims truthy, whose
  issuer is not \<^verbatim>\<open>steam\<close> and whose subject equals the SteamID of the session.
  \<^verbatim>\<open>setMobileAppAccessToken\<close> throws "Provided token is expired" exactly when the expiry
  claim is less than (\<^verbatim>\<open><\<close>) the current time in whole seconds; for a numeric expiry
  \<open>e\<close> that is \<open>e < nowMs div 1000\<close>. It stores the token exactly when the expiry is
  not less than the current second and the audience holds \<^verbatim>\<open>mobile\<close>. So an expiry
  equal to the current second is not rejected.
\<close>

theorem C2_expiry_check:
  assumes "steamID this = Some steamID64" and "decodeJwt R token = Inr d"
    and "truthy (iss d)" and "truthy (sub d)" and "truthy (aud d)" and "truthy (exp_claim d)"
    and "\<not> loose_eq_str R (iss d) ''steam''" and "loose_eq_str R (sub d) steamID64"
  shows "(fst (setMobileAppAccessToken R nowMs this token) = Inl (Error ''Provided token is expired''))
           = less_than_int R (exp_claim d) (nowMs div 1000)
         \<and> (setMobileAppAccessToken R nowMs this token
               = (Inr (), this\<lparr>mobileAccessToken := Some token\<rparr>))
           = (\<not> less_than_int R (exp_claim d) (nowMs div 1000)
              \<and> (\<exists>i. js_indexOf (aud d) ''mobile'' = Inr i \<and> i \<noteq> - 1))
         \<and> (\<forall>e. exp_claim d = JNum (Fin (of_int e)) \<longrightarrow>
                less_than_int R (exp_claim d) (nowMs div 1000) = (e < nowMs div 1000))"
proof (intro conjI allI impI)
  note eq = install_decoded [OF assms(1,2), of nowMs]
  show "(fst (setMobileAppAccessToken R nowMs this token) = Inl (Error ''Provided token is expired''))
           = less_than_int R (exp_claim d) (nowMs div 1000)"
    using assms(3-8) by (auto simp: eq split: sum.split dest: js_indexOf_Inl)
  show "(setMobileAppAccessToken R nowMs this token
               = (Inr (), this\<lparr>mobileAccessToken := Some token\<rparr>))
           = (\<not> less_than_int R (exp_claim d) (nowMs div 1000)
              \<and> (\<exists>i. js_indexOf (aud d) ''mobile'' = Inr i \<and> i \<noteq> - 1))"
    using assms(3-8) by (auto simp: eq split: sum.split)
next
  fix e assume "exp_claim d = JNum (Fin (of_int e))"
  then show "less_than_int R (exp_claim d) (nowMs div 1000) = (e < nowMs div 1000)"
    by (simp add: less_than_int_num)
qed

text \<open>The theorem at the token that expired one second ago: it is rejected as expired.\<close>

theorem C2_expiry_check_witness:
  "steamID logged_in = Some ''76561198000000001''
   \<and> fst (setMobileAppAccessToken sample_env 1700000000000 logged_in ''stale'')
       = Inl (Error ''Provided token is expired'')"
proof -
  have h1: "steamID logged_in = Some ''76561198000000001''"
    by (simp add: logged_in_def)
  note h2 = sample_decode(3)
  have "less_than_int sample_env (JNum (Fin 1699999999)) (1700000000000 div 1000)"
    by (simp add: less_than_int_def)
  with C2_expiry_check [OF h1 h2, of 1700000000000] h1 show ?thesis
    by simp
qed

text \<open>
  The claim as written fails at an expiry equal to the current second: it asks for
  "Provided token is expired", and the token is stored.
\<close>

theorem C2_expiry_equal_now_accepted:
  "steamID logged_in = Some ''76561198000000001''
   \<and> decodeJwt sample_env ''at-now'' =
       Inr \<lparr>iss = JStr ''r:0001'', sub = JStr ''76561198000000001'',
            aud = JArr [JStr ''web'', JStr ''mobile''], exp_claim = JNum (Fin 1700000000)\<rparr>
   \<and> \<not> ((1700000000::int) > 1700000000000 div 1000)
   \<and> setMobileAppAccessToken sample_env 1700000000000 logged_in ''at-now''
       = (Inr (), logged_in\<lparr>mobileAccessToken := Some ''at-now''\<rparr>)"
  by (simp add: sample_decode logged_in_def setMobileAppAccessToken_def js_or_def less_than_int_def)


section \<open>The mobile access token: subject and identity\<close>




section \<open>The mobile access token: checking again\<close>




section \<open>The mobile access token: audience\<close>




section \<open>The mobile access token: falsy claims\<close>

text \<open>
  C10. In a logged-in session, a token that decodes but has a falsy issuer, subject,
  audience or expiry (absent, \<^verbatim>\<open>null\<close>, \<^verbatim>\<open>false\<close>, \<open>0\<close>, the empty string) is
  refused with "Provided value is not a valid Steam access token", whatever the other
  claims are, and the session stays as it was. An expiry of \<open>0\<close> is thus not reported
  as an expired token.
\<close>

theorem C10_falsy_claim_is_malformed:
  assumes "steamID this = Some steamID64" and "decodeJwt R token = Inr d"
    and "\<not> truthy (iss d) \<or> \<not> truthy (sub d) \<or> \<not> truthy (aud d) \<or> \<not> truthy (exp_claim d)"
  shows "setMobileAppAccessToken R nowMs this token
           = (Inl (Error ''Provided value is not a valid Steam access token''), this)"
  using assms(3) by (simp add: install_decoded [OF assms(1,2)])

text \<open>The theorem at the token whose expiry claim is \<open>0\<close>.\<close>

theorem C10_falsy_claim_is_malformed_witness:
  "\<not> truthy (JNum (Fin 0))
   \<and> setMobileAppAccessToken sample_env 1700000000000 logged_in ''epoch''
       = (Inl (Error ''Provided value is not a valid Steam access token''), logged_in)"
proof -
  have h1: "steamID logged_in = Some ''76561198000000001''"
    by (simp add: logged_in_def)
  show ?thesis
    using C10_falsy_claim_is_malformed [OF h1 sample_decode(7), of 1700000000000] by simp
qed

section \<open>Creating a key: no domain\<close>

text \<open>
  C9. When \<^verbatim>\<open>options.domain\<close> is falsy, which covers the empty string and an absent
  domain, \<^verbatim>\<open>createWebApiKey\<close> hands its callback the error "Passing a domain is required
  to register an API key" and the history is what it was: no collaborator was called,
  whatever the collaborators are.
\<close>

theorem C9_no_domain_no_call:
  assumes "\<not> truthy (domain options)"
  shows "createWebApiKey D h options
           = (Inl (Error ''Passing a domain is required to register an API key''), h)"
  using assms by (subst createWebApiKey.simps) simp

text \<open>The theorem at an absent domain and at the empty domain.\<close>

theorem C9_no_domain_no_call_witness:
  "createWebApiKey sample_deps []
     \<lparr>domain = JUndefined, requestID = JUndefined, identitySecret = JUndefined\<rparr>
     = (Inl (Error ''Passing a domain is required to register an API key''), [])
   \<and> createWebApiKey sample_deps []
     \<lparr>domain = JStr [], requestID = JUndefined, identitySecret = JUndefined\<rparr>
     = (Inl (Error ''Passing a domain is required to register an API key''), [])"
  using C9_no_domain_no_call
          [of "\<lparr>domain = JUndefined, requestID = JUndefined, identitySecret = JUndefined\<rparr>"
              sample_deps "[]"]
        C9_no_domain_no_call
          [of "\<lparr>domain = JStr [], requestID = JUndefined, identitySecret = JUndefined\<rparr>"
              sample_deps "[]"]
  by simp

section \<open>Creating a key: result OK\<close>

text \<open>
  C7. When the registration call succeeds with \<^verbatim>\<open>success\<close> equal to \<^verbatim>\<open>EResult.OK\<close>:
  if the reply carries a (truthy) \<^verbatim>\<open>api_key\<close>, the callback gets
  \<^verbatim>\<open>{confirmationRequired: false, apiKey}\<close> with that key and nothing more is called;
  otherwise \<^verbatim>\<open>getWebApiKey\<close> is called, and the callback gets its error unchanged when
  it fails and its key, wrapped the same way, when it succeeds.
\<close>

theorem C7_ok:
  assumes "truthy (domain options)" and "registration_reply D h options = (None, body)"
    and "switch_success D (success body) = OK"
  shows "(truthy (api_key body) \<longrightarrow>
            createWebApiKey D h options
              = (Inr \<lparr>confirmationRequired = False, apiKey = api_key body,
                       finalizeOptions = None\<rparr>,
                 after_registration D h options))
         \<and> (\<not> truthy (api_key body) \<longrightarrow>
            createWebApiKey D h options
              = (case getWebApiKey D (after_registration D h options) of
                   (Some e, key) \<Rightarrow> (Inl e, after_registration D h options @ [GetWebApiKey])
                 | (None, key) \<Rightarrow>
                     (Inr \<lparr>confirmationRequired = False, apiKey = key, finalizeOptions = None\<rparr>,
                      after_registration D h options @ [GetWebApiKey])))"
  using assms(3)
  by (simp add: create_registered [OF assms(1,2)] split_beta Let_def split: option.split)

text \<open>The theorem at a reply with a key, and at a reply without one.\<close>

theorem C7_ok_witness:
  "fst (createWebApiKey sample_deps []
          \<lparr>domain = JStr ''issued.example'', requestID = JUndefined, identitySecret = JUndefined\<rparr>)
     = Inr \<lparr>confirmationRequired = False, apiKey = JStr ''0123456789ABCDEF'',
            finalizeOptions = None\<rparr>
   \<and> fst (createWebApiKey sample_deps []
          \<lparr>domain = JStr ''nokey.example'', requestID = JUndefined, identitySecret = JUndefined\<rparr>)
     = Inr \<lparr>confirmationRequired = False, apiKey = JStr ''FEDCBA9876543210'',
            finalizeOptions = None\<rparr>"
  using C7_ok [where D = sample_deps and h = "[]"
                 and options = "\<lparr>domain = JStr ''issued.example'', requestID = JUndefined,
                                  identitySecret = JUndefined\<rparr>"
                 and body = "\<lparr>success = JNum (Fin 1), api_key = JStr ''0123456789ABCDEF'',
                               request_id = JUndefined, requires_confirmation = JNum (Fin 0)\<rparr>"]
        C7_ok [where D = sample_deps and h = "[]"
                 and options = "\<lparr>domain = JStr ''nokey.example'', requestID = JUndefined,
                                  identitySecret = JUndefined\<rparr>"
                 and body = "\<lparr>success = JNum (Fin 1), api_key = JUndefined,
                               request_id = JUndefined, requires_confirmation = JNum (Fin 0)\<rparr>"]
  by (simp add: sample_eval Let_def)

section \<open>Creating a key: result Pending, no secret\<close>

text \<open>
  C6. When the registration call succeeds with \<^verbatim>\<open>success\<close> equal to
  \<^verbatim>\<open>EResult.Pending\<close> and \<^verbatim>\<open>options.identitySecret\<close> is falsy, the callback gets no
  error and \<^verbatim>\<open>{confirmationRequired: true, finalizeOptions}\<close>, where
  \<^verbatim>\<open>finalizeOptions\<close> has the domain of the options and, as request id, the
  \<^verbatim>\<open>request_id\<close> of the reply when there is one (when it is truthy) and the request id
  of the options otherwise. Nothing is called after the registration.
\<close>

theorem C6_pending_without_secret:
  assumes "truthy (domain options)" and "registration_reply D h options = (None, body)"
    and "switch_success D (success body) = Pending"
    and "\<not> truthy (identitySecret options)"
  shows "createWebApiKey D h options
           = (Inr \<lparr>confirmationRequired = True, apiKey = JUndefined,
                    finalizeOptions =
                      Some \<lparr>domain = domain options,
                            requestID = (if truthy (request_id body) then request_id body
                                         else requestID options),
                            identitySecret = JUndefined\<rparr>\<rparr>,
              after_registration D h options)"
  using assms(3,4)
  by (simp add: create_registered [OF assms(1,2)] finalize_options_def js_or_def Let_def)

text \<open>The theorem at a reply that echoes a request id, and at one that does not.\<close>

theorem C6_pending_without_secret_witness:
  "fst (createWebApiKey sample_deps []
          \<lparr>domain = JStr ''once.example'', requestID = JUndefined, identitySecret = JUndefined\<rparr>)
     = Inr \<lparr>confirmationRequired = True, apiKey = JUndefined,
            finalizeOptions = Some \<lparr>domain = JStr ''once.example'',
                                    requestID = JStr ''4815162342'',
                                    identitySecret = JUndefined\<rparr>\<rparr>
   \<and> fst (createWebApiKey sample_deps []
          \<lparr>domain = JStr ''noecho.example'', requestID = JStr ''777'',
           identitySecret = JUndefined\<rparr>)
     = Inr \<lparr>confirmationRequired = True, apiKey = JUndefined,
            finalizeOptions = Some \<lparr>domain = JStr ''noecho.example'',
                                    requestID = JStr ''777'',
                                    identitySecret = JUndefined\<rparr>\<rparr>"
  using C6_pending_without_secret
          [where D = sample_deps and h = "[]"
             and options = "\<lparr>domain = JStr ''once.example'', requestID = JUndefined,
                              identitySecret = JUndefined\<rparr>"
             and body = "\<lparr>success = JNum (Fin 22), api_key = JUndefined,
                           request_id = JStr ''4815162342'',
                           requires_confirmation = JNum (Fin 1)\<rparr>"]
        C6_pending_without_secret
          [where D = sample_deps and h = "[]"
             and options = "\<lparr>domain = JStr ''noecho.example'', requestID = JStr ''777'',
                              identitySecret = JUndefined\<rparr>"
             and body = "\<lparr>success = JNum (Fin 22), api_key = JUndefined,
                           request_id = JUndefined,
                           requires_confirmation = JNum (Fin 1)\<rparr>"]
  by (simp add: sample_eval Let_def)

section \<open>Creating a key: result Pending, with a secret\<close>

text \<open>
  C1, as the code has it. When the registration call succeeds with \<^verbatim>\<open>success\<close> equal to
  \<^verbatim>\<open>EResult.Pending\<close> and \<^verbatim>\<open>options.identitySecret\<close> is truthy,
  \<^verbatim>\<open>acceptConfirmationForObject\<close> is called with the secret and the request id of
  \<^verbatim>\<open>finalizeOptions\<close>. When it fails, the callback gets its error unchanged. When it
  succeeds, \<^verbatim>\<open>createWebApiKey\<close> calls itself with \<^verbatim>\<open>finalizeOptions\<close>, an object that
  holds the domain and the request id and no secret: if the registration call of that
  second run answers \<^verbatim>\<open>Pending\<close> again, no confirmation is accepted and the callback
  gets \<^verbatim>\<open>{confirmationRequired: true, finalizeOptions}\<close>.
\<close>

theorem C1_pending_with_secret:
  assumes "truthy (domain options)" and "registration_reply D h options = (None, body)"
    and "switch_success D (success body) = Pending"
    and "truthy (identitySecret options)"
    and "resume = finalize_options options body"
    and "h2 = after_registration D h options"
    and "h3 = h2 @ [AcceptConfirmationForObject (identitySecret options) (requestID resume)]"
  shows "identitySecret resume = JUndefined
         \<and> (\<forall>e. acceptConfirmationForObject D h2 (identitySecret options) (requestID resume) = Some e
                \<longrightarrow> createWebApiKey D h options = (Inl e, h3))
         \<and> (acceptConfirmationForObject D h2 (identitySecret options) (requestID resume) = None
                \<longrightarrow> createWebApiKey D h options = createWebApiKey D h3 resume
                  \<and> (\<forall>body'. registration_reply D h3 resume = (None, body')
                               \<and> switch_success D (success body') = Pending
                        \<longrightarrow> createWebApiKey D h options
                              = (Inr \<lparr>confirmationRequired = True, apiKey = JUndefined,
                                       finalizeOptions = Some (finalize_options resume body')\<rparr>,
                                 after_registration D h3 resume)))"
proof (intro conjI allI impI)
  show "identitySecret resume = JUndefined"
    by (simp add: assms(5) finalize_options_def)
next
  fix e
  assume "acceptConfirmationForObject D h2 (identitySecret options) (requestID resume) = Some e"
  then show "createWebApiKey D h options = (Inl e, h3)"
    using assms(3-7) by (simp add: create_registered [OF assms(1,2)] Let_def)
next
  assume ok: "acceptConfirmationForObject D h2 (identitySecret options) (requestID resume) = None"
  then show step: "createWebApiKey D h options = createWebApiKey D h3 resume"
    using assms(3-7) by (simp add: create_registered [OF assms(1,2)] Let_def)
  fix body'
  assume again: "registration_reply D h3 resume = (None, body')
                 \<and> switch_success D (success body') = Pending"
  have dom: "truthy (domain resume)"
    using assms(1) by (simp add: assms(5) finalize_options_def)
  have nosecret: "\<not> truthy (identitySecret resume)"
    by (simp add: assms(5) finalize_options_def)
  from again have r': "registration_reply D h3 resume = (None, body')" by simp
  show "createWebApiKey D h options
          = (Inr \<lparr>confirmationRequired = True, apiKey = JUndefined,
                   finalizeOptions = Some (finalize_options resume body')\<rparr>,
             after_registration D h3 resume)"
    using again nosecret by (simp add: step create_registered [OF dom r'] Let_def)
qed

text \<open>
  The theorem at a secret the confirmation is refused for, and at the accepted secret
  with an endpoint that answers \<^verbatim>\<open>Pending\<close> once: the second run gets the key.
\<close>

theorem C1_pending_with_secret_witness:
  "createWebApiKey sample_deps []
     \<lparr>domain = JStr ''once.example'', requestID = JUndefined, identitySecret = JStr ''d3Jvbmc=''\<rparr>
     = (Inl (Error ''Could not find confirmation for object''),
        [GetSessionID,
         HttpRequestPost requestkey_uri
           \<lparr>form_domain = JStr ''once.example'', form_request_id = JStr ''0'',
            form_sessionid = JStr ''0f1e2d3c4b5a69788796a5b4'', form_agreeToTerms = ''true''\<rparr>,
         AcceptConfirmationForObject (JStr ''d3Jvbmc='') (JStr ''4815162342'')])
   \<and> fst (createWebApiKey sample_deps []
          \<lparr>domain = JStr ''once.example'', requestID = JUndefined,
           identitySecret = JStr ''c2VjcmV0''\<rparr>)
     = Inr \<lparr>confirmationRequired = False, apiKey = JStr ''0123456789ABCDEF'',
            finalizeOptions = None\<rparr>"
proof -
  let ?pending = "\<lparr>success = JNum (Fin 22), api_key = JUndefined,
                    request_id = JStr ''4815162342'', requires_confirmation = JNum (Fin 1)\<rparr>"
  have a: "createWebApiKey sample_deps []
     \<lparr>domain = JStr ''once.example'', requestID = JUndefined, identitySecret = JStr ''d3Jvbmc=''\<rparr>
     = (Inl (Error ''Could not find confirmation for object''),
        [GetSessionID,
         HttpRequestPost requestkey_uri
           \<lparr>form_domain = JStr ''once.example'', form_request_id = JStr ''0'',
            form_sessionid = JStr ''0f1e2d3c4b5a69788796a5b4'', form_agreeToTerms = ''true''\<rparr>,
         AcceptConfirmationForObject (JStr ''d3Jvbmc='') (JStr ''4815162342'')])"
    using C1_pending_with_secret
            [where D = sample_deps and h = "[]" and body = ?pending
               and options = "\<lparr>domain = JStr ''once.example'', requestID = JUndefined,
                                identitySecret = JStr ''d3Jvbmc=''\<rparr>",
             OF _ _ _ _ refl refl refl]
    by (simp add: sample_eval Let_def)
  have b: "createWebApiKey sample_deps []
          \<lparr>domain = JStr ''once.example'', requestID = JUndefined,
           identitySecret = JStr ''c2VjcmV0''\<rparr>
     = createWebApiKey sample_deps
         [GetSessionID,
          HttpRequestPost requestkey_uri
            \<lparr>form_domain = JStr ''once.example'', form_request_id = JStr ''0'',
             form_sessionid = JStr ''0f1e2d3c4b5a69788796a5b4'', form_agreeToTerms = ''true''\<rparr>,
          AcceptConfirmationForObject (JStr ''c2VjcmV0'') (JStr ''4815162342'')]
         \<lparr>domain = JStr ''once.example'', requestID = JStr ''4815162342'',
          identitySecret = JUndefined\<rparr>"
    using C1_pending_with_secret
            [where D = sample_deps and h = "[]" and body = ?pending
               and options = "\<lparr>domain = JStr ''once.example'', requestID = JUndefined,
                                identitySecret = JStr ''c2VjcmV0''\<rparr>",
             OF _ _ _ _ refl refl refl]
    by (simp add: sample_eval Let_def)
  have c: "fst (createWebApiKey sample_deps
         [GetSessionID,
          HttpRequestPost requestkey_uri
            \<lparr>form_domain = JStr ''once.example'', form_request_id = JStr ''0'',
             form_sessionid = JStr ''0f1e2d3c4b5a69788796a5b4'', form_agreeToTerms = ''true''\<rparr>,
          AcceptConfirmationForObject (JStr ''c2VjcmV0'') (JStr ''4815162342'')]
         \<lparr>domain = JStr ''once.example'', requestID = JStr ''4815162342'',
          identitySecret = JUndefined\<rparr>)
       = Inr \<lparr>confirmationRequired = False, apiKey = JStr ''0123456789ABCDEF'',
              finalizeOptions = None\<rparr>"
    by (simp add: createWebApiKey.simps sample_eval Let_def)
  from a b c show ?thesis by simp
qed

text \<open>
  The claim as written fails where the endpoint answers \<^verbatim>\<open>Pending\<close> twice. The run
  accepts one confirmation and ends after the second \<^verbatim>\<open>Pending\<close> with
  \<^verbatim>\<open>confirmationRequired: true\<close>; the run the claim describes, which starts again
  with the secret attached, would accept a second confirmation and end with the key.
\<close>

theorem C1_second_pending_not_confirmed:
  "createWebApiKey sample_deps []
     \<lparr>domain = JStr ''twice.example'', requestID = JUndefined, identitySecret = JStr ''c2VjcmV0''\<rparr>
     = (Inr \<lparr>confirmationRequired = True, apiKey = JUndefined,
             finalizeOptions = Some \<lparr>domain = JStr ''twice.example'',
                                     requestID = JStr ''4815162342'',
                                     identitySecret = JUndefined\<rparr>\<rparr>,
        [GetSessionID,
         HttpRequestPost requestkey_uri
           \<lparr>form_domain = JStr ''twice.example'', form_request_id = JStr ''0'',
            form_sessionid = JStr ''0f1e2d3c4b5a69788796a5b4'', form_agreeToTerms = ''true''\<rparr>,
         AcceptConfirmationForObject (JStr ''c2VjcmV0'') (JStr ''4815162342''),
         GetSessionID,
         HttpRequestPost requestkey_uri
           \<lparr>form_domain = JStr ''twice.example'', form_request_id = JStr ''4815162342'',
            form_sessionid = JStr ''0f1e2d3c4b5a69788796a5b4'', form_agreeToTerms = ''true''\<rparr>])
   \<and> fst (createWebApiKey sample_deps
          [GetSessionID,
           HttpRequestPost requestkey_uri
             \<lparr>form_domain = JStr ''twice.example'', form_request_id = JStr ''0'',
              form_sessionid = JStr ''0f1e2d3c4b5a69788796a5b4'', form_agreeToTerms = ''true''\<rparr>,
           AcceptConfirmationForObject (JStr ''c2VjcmV0'') (JStr ''4815162342'')]
          \<lparr>domain = JStr ''twice.example'', requestID = JStr ''4815162342'',
           identitySecret = JStr ''c2VjcmV0''\<rparr>)
     = Inr \<lparr>confirmationRequired = False, apiKey = JStr ''0123456789ABCDEF'',
            finalizeOptions = None\<rparr>"
  by (simp add: createWebApiKey.simps sample_eval Let_def)

section \<open>Creating a key: the confirmation hint\<close>

text \<open>
  C8. \<^verbatim>\<open>createWebApiKey\<close> never reads \<^verbatim>\<open>body.requires_confirmation\<close>: put any
  value at all in that field of every reply of the registration endpoint, leaving the
  result code, the key and the echoed request id as they are, and the run makes the same
  calls and hands its callback the same thing.
\<close>

theorem C8_hint_ignored:
  "createWebApiKey (with_hint hint D) h options = createWebApiKey D h options"
proof (cases "truthy (domain options)")
  case False
  then show ?thesis by (simp add: create_no_domain)
next
  case True
  obtain err body where r: "registration_reply D h options = (err, body)"
    by (cases "registration_reply D h options")
  have "\<not> truthy (identitySecret (finalize_options options body))"
    by (simp add: finalize_options_def)
  then have rec: "createWebApiKey (with_hint hint D) h' (finalize_options options body)
                  = createWebApiKey D h' (finalize_options options body)" for h'
    by (rule hint_ignored_no_secret)
  show ?thesis
    by (simp add: create_registered [OF True r]
                  create_registered [OF True with_hint_reply [OF r]]
                  with_hint_simps finalize_options_hint rec Let_def
             split: option.split switch_label.split)
qed

text \<open>
  The theorem at the endpoint that answers \<^verbatim>\<open>Pending\<close> and says, against its own
  result code, that no confirmation is required.
\<close>

theorem C8_hint_ignored_witness:
  "createWebApiKey (with_hint (\<lambda>h uri form. JNum (Fin 0)) sample_deps) []
     \<lparr>domain = JStr ''once.example'', requestID = JUndefined, identitySecret = JUndefined\<rparr>
   = createWebApiKey sample_deps []
     \<lparr>domain = JStr ''once.example'', requestID = JUndefined, identitySecret = JUndefined\<rparr>"
  by (rule C8_hint_ignored)

end
